theory Spec2Isabelle
  imports Main "HOL-Library.Word"
begin

section \<open>The XMODEM byte I/O layer (xmodem_io.c): data\<close>

text \<open>
  The file receives one byte from a UART with a timeout: \<open>xmodem_io_getc\<close> arms an RTC
  alarm, starts an interrupt-driven read of one byte and spins on a state cell that the
  two interrupt callbacks write. The drivers (\<open>qm_rtc\<close>, \<open>qm_uart\<close>) are outside of the
  file: their calls are recorded in a trace, and the interrupts they raise are an input
  of the model. \<open>xmodem_io_putc\<close> and \<open>xmodem_io_uart_init\<close> only call the drivers and
  are not modelled.
\<close>

type_synonym u8 = "8 word"
type_synonym u32 = "32 word"

text \<open>
  The file includes \<^verbatim>\<open>errno.h\<close> and \<^verbatim>\<open>qm_rtc.h\<close>, which are not part of the
  sources at hand. The three constants it takes from them are parameters of the model:
  \<open>EIO\<close> and \<open>ETIME\<close> of \<^verbatim>\<open>errno.h\<close> and \<open>QM_RTC_ALARM_SECOND\<close> (the number of
  RTC ticks in a second) of \<^verbatim>\<open>qm_rtc.h\<close>.
\<close>

record hdr =
  EIO :: int
  ETIME :: int
  QM_RTC_ALARM_SECOND :: u32

text \<open>
  The C standard makes the macros of \<^verbatim>\<open>errno.h\<close> distinct positive values of type
  \<open>int\<close>; nothing else is assumed of them.
\<close>

definition hdr_ok :: "hdr \<Rightarrow> bool" where
  "hdr_ok h = (0 < EIO h \<and> 0 < ETIME h \<and> EIO h \<noteq> ETIME h)"

text \<open>\<^verbatim>\<open>#define XMODEM_UART_TIMEOUT_S (2)\<close>\<close>

definition XMODEM_UART_TIMEOUT_S :: u32 where
  "XMODEM_UART_TIMEOUT_S = 2"

text \<open>
  \<^verbatim>\<open>enum rx_state\<close>: a C enumeration is an \<open>int\<close>, and the function returns the
  enumerator's value as its status, so the state cell holds an \<open>int\<close> and the
  enumerators are the constants below.
\<close>

definition STATE_UART_ERROR :: "hdr \<Rightarrow> int" where
  "STATE_UART_ERROR h = - EIO h"

definition STATE_TIMEOUT :: "hdr \<Rightarrow> int" where
  "STATE_TIMEOUT h = - ETIME h"

definition STATE_UART_RX_DONE :: int where
  "STATE_UART_RX_DONE = 1"

definition STATE_WAITING :: int where
  "STATE_WAITING = 2"

text \<open>
  \<^verbatim>\<open>qm_rtc_config_t rtc_cfg\<close>: the fields holding data. The two callback fields are
  constant (\<open>rtc_callback\<close> and \<open>NULL\<close>) and are not represented.
\<close>

record qm_rtc_config_t =
  init_val :: u32
  alarm_en :: bool
  alarm_val :: u32

text \<open>
  What the calling context does that is visible outside of it, in program order: the
  three driver calls, the stores to and loads from the volatile state cell, and the store
  through the caller's pointer \<open>ch\<close>.
\<close>

datatype action =
    Qm_rtc_set_config qm_rtc_config_t
  | Store_rx_state int
  | Qm_uart_irq_read
  | Load_rx_state int
  | Qm_uart_irq_read_terminate
  | Store_ch u8

text \<open>
  The file's static variables, and the record of the actions so far. The constant
  structures \<open>uart_config\<close> and \<open>uart_transfer\<close> are not state: the latter says that
  the UART interrupt handler stores the byte it reads in \<open>in_byte\<close> and then calls
  \<open>uart_callback\<close> with \<open>NULL\<close>.
\<close>

record xmodem_io =
  in_byte :: u8
  rtc_cfg :: qm_rtc_config_t
  xmodem_io_rx_state :: int
  trace :: "action list"

text \<open>
  The static initialisers; the state cell is zero-initialised. The alarm value is
  \<^verbatim>\<open>QM_RTC_ALARM_SECOND * XMODEM_UART_TIMEOUT_S\<close>, stored in a field of 32 bits.
\<close>

definition xmodem_io_init :: "hdr \<Rightarrow> xmodem_io" where
  "xmodem_io_init h =
     \<lparr> in_byte = 0,
       rtc_cfg = \<lparr> init_val = 0, alarm_en = False,
                   alarm_val = QM_RTC_ALARM_SECOND h * XMODEM_UART_TIMEOUT_S \<rparr>,
       xmodem_io_rx_state = 0,
       trace = [] \<rparr>"

section \<open>Callbacks\<close>

text \<open>Pointers passed as callback data are addresses; \<open>NULL\<close> is 0.\<close>

type_synonym ptr = nat

definition NULL :: ptr where
  "NULL = 0"

text \<open>
  The type \<open>'st\<close> stands for \<^verbatim>\<open>qm_uart_status_t\<close>, whose declaration is in
  \<^verbatim>\<open>qm_uart.h\<close>.
\<close>

definition uart_callback ::
  "hdr \<Rightarrow> ptr \<Rightarrow> int \<Rightarrow> 'st \<Rightarrow> u32 \<Rightarrow> xmodem_io \<Rightarrow> xmodem_io" where
  "uart_callback h data error status len s =
     (if error < 0 then s\<lparr>xmodem_io_rx_state := STATE_UART_ERROR h\<rparr>
      else s\<lparr>xmodem_io_rx_state := STATE_UART_RX_DONE\<rparr>)"

definition rtc_callback :: "hdr \<Rightarrow> ptr \<Rightarrow> xmodem_io \<Rightarrow> xmodem_io" where
  "rtc_callback h data s = s\<lparr>xmodem_io_rx_state := STATE_TIMEOUT h\<rparr>"

section \<open>Interrupts\<close>

text \<open>
  The drivers are outside of the file. What reaches the file's state from interrupt
  context is: the UART handler storing a received byte in \<open>in_byte\<close> (the \<open>data\<close>
  field of \<open>uart_transfer\<close>), the UART handler calling \<open>uart_callback\<close>, and the RTC
  handler calling \<open>rtc_callback\<close>, both with \<open>NULL\<close> as callback data.
\<close>

datatype 'st irq =
    Uart_rx_byte u8
  | Uart_callback int 'st u32
  | Rtc_callback

fun isr :: "hdr \<Rightarrow> 'st irq \<Rightarrow> xmodem_io \<Rightarrow> xmodem_io" where
  "isr h (Uart_rx_byte b) s = s\<lparr>in_byte := b\<rparr>"
| "isr h (Uart_callback error status len) s = uart_callback h NULL error status len s"
| "isr h Rtc_callback s = rtc_callback h NULL s"

definition deliver :: "hdr \<Rightarrow> 'st irq list \<Rightarrow> xmodem_io \<Rightarrow> xmodem_io" where
  "deliver h es s = fold (isr h) es s"

text \<open>
  The interrupts of one call of \<open>xmodem_io_getc\<close>, by the place where they preempt it:
  \<open>irq_arm\<close> before the store that resets the state cell; \<open>irq_poll k\<close> between the
  loads number \<open>k - 1\<close> and \<open>k\<close> of the cell by the loop, counted from 0
  (\<open>irq_poll 0\<close>: between the reset and the first load); \<open>irq_done\<close> between the last
  load and the \<open>switch\<close>. An interrupt later than that changes nothing the call still
  reads, and precedes the reset of the next call. The callbacks write the state cell
  only and the UART handler \<open>in_byte\<close> only, so this covers every interleaving.
\<close>

record 'st irq_env =
  irq_arm :: "'st irq list"
  irq_poll :: "nat \<Rightarrow> 'st irq list"
  irq_done :: "'st irq list"

section \<open>Receiving one byte\<close>

definition act :: "action \<Rightarrow> xmodem_io \<Rightarrow> xmodem_io" where
  "act a s = s\<lparr>trace := trace s @ [a]\<rparr>"

text \<open>\<^verbatim>\<open>qm_rtc_set_config(QM_RTC_0, &rtc_cfg)\<close>: the driver is given the structure as it is.\<close>

definition qm_rtc_set_config :: "xmodem_io \<Rightarrow> xmodem_io" where
  "qm_rtc_set_config s = act (Qm_rtc_set_config (rtc_cfg s)) s"

definition qm_uart_irq_read :: "xmodem_io \<Rightarrow> xmodem_io" where
  "qm_uart_irq_read s = act Qm_uart_irq_read s"

definition qm_uart_irq_read_terminate :: "xmodem_io \<Rightarrow> xmodem_io" where
  "qm_uart_irq_read_terminate s = act Qm_uart_irq_read_terminate s"

definition store_rx_state :: "int \<Rightarrow> xmodem_io \<Rightarrow> xmodem_io" where
  "store_rx_state v s = act (Store_rx_state v) (s\<lparr>xmodem_io_rx_state := v\<rparr>)"

definition load_rx_state :: "xmodem_io \<Rightarrow> int \<times> xmodem_io" where
  "load_rx_state s = (xmodem_io_rx_state s, act (Load_rx_state (xmodem_io_rx_state s)) s)"

text \<open>Lines 124 to 129: set up the timer, reset the state, start the read.\<close>

definition getc_start :: "hdr \<Rightarrow> 'st irq_env \<Rightarrow> xmodem_io \<Rightarrow> xmodem_io" where
  "getc_start h env s =
     qm_uart_irq_read
       (store_rx_state STATE_WAITING
         (deliver h (irq_arm env)
           (qm_rtc_set_config (s\<lparr>rtc_cfg := (rtc_cfg s)\<lparr>alarm_en := True\<rparr>\<rparr>))))"

text \<open>
  The loop of line 132: each iteration loads the cell once into \<open>retv\<close>. The loop has
  no bound, so the function is partial: \<open>None\<close> is a loop that never ends.
\<close>

partial_function (option) getc_wait ::
  "hdr \<Rightarrow> (nat \<Rightarrow> 'st irq list) \<Rightarrow> nat \<Rightarrow> xmodem_io \<Rightarrow> (int \<times> xmodem_io) option" where
  "getc_wait h irq k s =
     (case load_rx_state (deliver h (irq k) s) of
        (retv, s') \<Rightarrow>
          if retv = STATE_WAITING then getc_wait h irq (Suc k) s' else Some (retv, s'))"

declare getc_wait.simps [code]

text \<open>
  Lines 135 to 155: the \<open>switch\<close>, the disabling of the alarm and the return. The
  second component of the result is the content of the caller's \<open>*ch\<close>.
\<close>

definition getc_finish :: "hdr \<Rightarrow> u8 \<Rightarrow> int \<Rightarrow> xmodem_io \<Rightarrow> int \<times> u8 \<times> xmodem_io" where
  "getc_finish h ch retv s =
     (case (if retv = STATE_TIMEOUT h then (ch, qm_uart_irq_read_terminate s)
            else if retv = STATE_UART_RX_DONE then (in_byte s, act (Store_ch (in_byte s)) s)
            else (ch, s)) of
        (ch', s') \<Rightarrow>
          (retv, ch', qm_rtc_set_config (s'\<lparr>rtc_cfg := (rtc_cfg s')\<lparr>alarm_en := False\<rparr>\<rparr>)))"

definition xmodem_io_getc ::
  "hdr \<Rightarrow> 'st irq_env \<Rightarrow> u8 \<Rightarrow> xmodem_io \<Rightarrow> (int \<times> u8 \<times> xmodem_io) option" where
  "xmodem_io_getc h env ch s =
     (case getc_wait h (irq_poll env) 0 (getc_start h env s) of
        None \<Rightarrow> None
      | Some (retv, s') \<Rightarrow> Some (getc_finish h ch retv (deliver h (irq_done env) s')))"

section \<open>Observations on interrupts and traces\<close>

text \<open>The interrupts that call one of the two callbacks, which are the ones that write the state cell.\<close>

fun is_callback :: "'st irq \<Rightarrow> bool" where
  "is_callback (Uart_rx_byte b) = False"
| "is_callback (Uart_callback error status len) = True"
| "is_callback Rtc_callback = True"

definition callbacks :: "'st irq list \<Rightarrow> 'st irq list" where
  "callbacks es = filter is_callback es"

text \<open>The actions of one call: what the call appended to the trace.\<close>

definition call_trace :: "xmodem_io \<Rightarrow> xmodem_io \<Rightarrow> action list" where
  "call_trace s s' = drop (length (trace s)) (trace s')"

text \<open>The bytes stored through the caller's pointer, in order.\<close>

fun ch_stores :: "action list \<Rightarrow> u8 list" where
  "ch_stores [] = []"
| "ch_stores (Store_ch b # tr) = b # ch_stores tr"
| "ch_stores (a # tr) = ch_stores tr"

text \<open>The values loaded from the state cell, and the structures given to the RTC driver, in order.\<close>

fun loads :: "action list \<Rightarrow> int list" where
  "loads [] = []"
| "loads (Load_rx_state v # tr) = v # loads tr"
| "loads (a # tr) = loads tr"

fun rtc_configs :: "action list \<Rightarrow> qm_rtc_config_t list" where
  "rtc_configs [] = []"
| "rtc_configs (Qm_rtc_set_config c # tr) = c # rtc_configs tr"
| "rtc_configs (a # tr) = rtc_configs tr"

text \<open>\<open>occurs_before a b tr\<close>: \<open>a\<close> occurs in \<open>tr\<close>, and no \<open>b\<close> occurs before the first \<open>a\<close>.\<close>

definition occurs_before :: "action \<Rightarrow> action \<Rightarrow> action list \<Rightarrow> bool" where
  "occurs_before a b tr = (a \<in> set tr \<and> b \<notin> set (takeWhile (\<lambda>x. x \<noteq> a) tr))"

section \<open>Example calls\<close>

text \<open>The values of newlib's \<^verbatim>\<open>errno.h\<close>, and an RTC of 32768 ticks in a second.\<close>

definition h0 :: hdr where
  "h0 = \<lparr> EIO = 5, ETIME = 62, QM_RTC_ALARM_SECOND = 32768 \<rparr>"

text \<open>A line fault with code \<open>-22\<close>, reported before the third load of the state cell.\<close>

definition env_fault :: "unit irq_env" where
  "env_fault =
     \<lparr> irq_arm = [],
       irq_poll = (\<lambda>k. if k = 2 then [Uart_callback (- 22) () 0] else []),
       irq_done = [] \<rparr>"

text \<open>The byte \<open>0x41\<close> received before the second load.\<close>

definition env_byte :: "unit irq_env" where
  "env_byte =
     \<lparr> irq_arm = [],
       irq_poll = (\<lambda>k. if k = 1 then [Uart_rx_byte 65, Uart_callback 0 () 1] else []),
       irq_done = [] \<rparr>"

text \<open>No byte; the alarm fires before the fourth load.\<close>

definition env_timeout :: "unit irq_env" where
  "env_timeout =
     \<lparr> irq_arm = [],
       irq_poll = (\<lambda>k. if k = 3 then [Rtc_callback] else []),
       irq_done = [] \<rparr>"

text \<open>The byte \<open>0x41\<close> is received and the alarm fires between the same two loads.\<close>

definition env_race :: "unit irq_env" where
  "env_race =
     \<lparr> irq_arm = [],
       irq_poll = (\<lambda>k. if k = 1 then [Uart_rx_byte 65, Uart_callback 0 () 1, Rtc_callback] else []),
       irq_done = [] \<rparr>"

text \<open>The states in which the calls with \<open>env_fault\<close>, \<open>env_byte\<close> and \<open>env_timeout\<close> end.\<close>

definition s_fault :: xmodem_io where
  "s_fault =
     \<lparr> in_byte = 0,
       rtc_cfg = \<lparr> init_val = 0, alarm_en = False, alarm_val = 65536 \<rparr>,
       xmodem_io_rx_state = - 5,
       trace =
         [Qm_rtc_set_config \<lparr> init_val = 0, alarm_en = True, alarm_val = 65536 \<rparr>,
          Store_rx_state 2, Qm_uart_irq_read,
          Load_rx_state 2, Load_rx_state 2, Load_rx_state (- 5),
          Qm_rtc_set_config \<lparr> init_val = 0, alarm_en = False, alarm_val = 65536 \<rparr>] \<rparr>"

definition s_byte :: xmodem_io where
  "s_byte =
     \<lparr> in_byte = 65,
       rtc_cfg = \<lparr> init_val = 0, alarm_en = False, alarm_val = 65536 \<rparr>,
       xmodem_io_rx_state = 1,
       trace =
         [Qm_rtc_set_config \<lparr> init_val = 0, alarm_en = True, alarm_val = 65536 \<rparr>,
          Store_rx_state 2, Qm_uart_irq_read,
          Load_rx_state 2, Load_rx_state 1, Store_ch 65,
          Qm_rtc_set_config \<lparr> init_val = 0, alarm_en = False, alarm_val = 65536 \<rparr>] \<rparr>"

definition s_timeout :: xmodem_io where
  "s_timeout =
     \<lparr> in_byte = 0,
       rtc_cfg = \<lparr> init_val = 0, alarm_en = False, alarm_val = 65536 \<rparr>,
       xmodem_io_rx_state = - 62,
       trace =
         [Qm_rtc_set_config \<lparr> init_val = 0, alarm_en = True, alarm_val = 65536 \<rparr>,
          Store_rx_state 2, Qm_uart_irq_read,
          Load_rx_state 2, Load_rx_state 2, Load_rx_state 2, Load_rx_state (- 62),
          Qm_uart_irq_read_terminate,
          Qm_rtc_set_config \<lparr> init_val = 0, alarm_en = False, alarm_val = 65536 \<rparr>] \<rparr>"

section \<open>Interrupt delivery\<close>

lemmas enum_defs = STATE_WAITING_def STATE_UART_RX_DONE_def STATE_UART_ERROR_def STATE_TIMEOUT_def

lemma deliver_Nil [simp]: "deliver h [] s = s"
  by (simp add: deliver_def)

lemma deliver_Cons [simp]: "deliver h (e # es) s = deliver h es (isr h e s)"
  by (simp add: deliver_def)

lemma isr_trace [simp]: "trace (isr h e s) = trace s"
  by (cases e) (simp_all add: uart_callback_def rtc_callback_def)

lemma isr_rtc_cfg [simp]: "rtc_cfg (isr h e s) = rtc_cfg s"
  by (cases e) (simp_all add: uart_callback_def rtc_callback_def)

lemma deliver_trace [simp]: "trace (deliver h es s) = trace s"
  by (induction es arbitrary: s) simp_all

lemma deliver_rtc_cfg [simp]: "rtc_cfg (deliver h es s) = rtc_cfg s"
  by (induction es arbitrary: s) simp_all

lemma isr_callback_rx_state:
  "is_callback e \<Longrightarrow> xmodem_io_rx_state (isr h e s) = xmodem_io_rx_state (isr h e t)"
  by (cases e) (simp_all add: uart_callback_def rtc_callback_def)

lemma isr_rx_state_cases:
  "xmodem_io_rx_state (isr h e s) \<in>
     {xmodem_io_rx_state s, STATE_UART_RX_DONE, STATE_UART_ERROR h, STATE_TIMEOUT h}"
  by (cases e) (simp_all add: uart_callback_def rtc_callback_def)

lemma deliver_rx_state_cases:
  "xmodem_io_rx_state (deliver h es s) \<in>
     {xmodem_io_rx_state s, STATE_UART_RX_DONE, STATE_UART_ERROR h, STATE_TIMEOUT h}"
proof (induction es arbitrary: s)
  case Nil
  show ?case by simp
next
  case (Cons e es)
  from Cons.IH [of "isr h e s"] isr_rx_state_cases [of h e s] show ?case
    by auto
qed

lemma deliver_no_callbacks:
  "callbacks es = [] \<Longrightarrow> xmodem_io_rx_state (deliver h es s) = xmodem_io_rx_state s"
proof (induction es arbitrary: s)
  case Nil
  show ?case by simp
next
  case (Cons e es)
  then show ?case by (cases e) (simp_all add: callbacks_def)
qed

lemma deliver_last_callback:
  "callbacks es \<noteq> [] \<Longrightarrow>
     xmodem_io_rx_state (deliver h es s) = xmodem_io_rx_state (isr h (last (callbacks es)) s)"
proof (induction es arbitrary: s)
  case Nil
  then show ?case by (simp add: callbacks_def)
next
  case (Cons e es)
  show ?case
  proof (cases "callbacks es = []")
    case True
    with Cons.prems have cb: "is_callback e" "callbacks (e # es) = [e]"
      by (auto simp: callbacks_def split: if_splits)
    from True have "xmodem_io_rx_state (deliver h es (isr h e s)) = xmodem_io_rx_state (isr h e s)"
      by (rule deliver_no_callbacks)
    with cb show ?thesis by simp
  next
    case False
    then have "last (callbacks (e # es)) = last (callbacks es)"
      by (simp add: callbacks_def)
    moreover have "is_callback (last (callbacks es))"
      using False last_in_set [of "callbacks es"] by (auto simp: callbacks_def)
    ultimately show ?thesis
      using Cons.IH [OF False, of "isr h e s"] isr_callback_rx_state [of "last (callbacks es)" h "isr h e s" s]
      by simp
  qed
qed

lemma isr_callback_not_waiting:
  "hdr_ok h \<Longrightarrow> is_callback e \<Longrightarrow> xmodem_io_rx_state (isr h e s) \<noteq> STATE_WAITING"
  by (cases e) (auto simp: uart_callback_def rtc_callback_def hdr_ok_def enum_defs)

section \<open>The wait loop\<close>

lemma act_simps [simp]:
  "trace (act a s) = trace s @ [a]"
  "rtc_cfg (act a s) = rtc_cfg s"
  "xmodem_io_rx_state (act a s) = xmodem_io_rx_state s"
  "in_byte (act a s) = in_byte s"
  by (simp_all add: act_def)

lemma getc_wait_Some:
  assumes "getc_wait h irq k s = Some (r, s')"
  shows "r \<noteq> STATE_WAITING \<and> xmodem_io_rx_state s' = r \<and> rtc_cfg s' = rtc_cfg s \<and>
         (\<exists>n. trace s' = trace s @ replicate n (Load_rx_state STATE_WAITING) @ [Load_rx_state r]) \<and>
         r \<in> {xmodem_io_rx_state s, STATE_UART_RX_DONE, STATE_UART_ERROR h, STATE_TIMEOUT h}"
proof -
  define P :: "hdr \<Rightarrow> (nat \<Rightarrow> 'a irq list) \<Rightarrow> nat \<Rightarrow> xmodem_io \<Rightarrow> int \<times> xmodem_io \<Rightarrow> bool" where
    "P = (\<lambda>h irq k s y.
       fst y \<noteq> STATE_WAITING \<and> xmodem_io_rx_state (snd y) = fst y \<and> rtc_cfg (snd y) = rtc_cfg s \<and>
       (\<exists>n. trace (snd y) = trace s @ replicate n (Load_rx_state STATE_WAITING) @ [Load_rx_state (fst y)]) \<and>
       fst y \<in> {xmodem_io_rx_state s, STATE_UART_RX_DONE, STATE_UART_ERROR h, STATE_TIMEOUT h})"
  have "P h irq k s (r, s')"
  proof (rule getc_wait.raw_induct [where P = P, OF _ assms])
    fix f :: "hdr \<Rightarrow> (nat \<Rightarrow> 'a irq list) \<Rightarrow> nat \<Rightarrow> xmodem_io \<Rightarrow> (int \<times> xmodem_io) option"
    fix h irq k s y
    assume IH: "\<And>h irq k s y. f h irq k s = Some y \<Longrightarrow> P h irq k s y"
    assume step: "(case load_rx_state (deliver h (irq k) s) of
                     (retv, s') \<Rightarrow> if retv = STATE_WAITING then f h irq (Suc k) s' else Some (retv, s'))
                  = Some y"
    let ?d = "deliver h (irq k) s"
    let ?v = "xmodem_io_rx_state ?d"
    let ?s1 = "act (Load_rx_state ?v) ?d"
    show "P h irq k s y"
    proof (cases "?v = STATE_WAITING")
      case True
      with step have "f h irq (Suc k) ?s1 = Some y"
        by (simp add: load_rx_state_def)
      from IH [OF this] have y: "fst y \<noteq> STATE_WAITING" "xmodem_io_rx_state (snd y) = fst y"
        "rtc_cfg (snd y) = rtc_cfg s"
        and tr: "\<exists>n. trace (snd y) = trace ?s1 @ replicate n (Load_rx_state STATE_WAITING) @ [Load_rx_state (fst y)]"
        and mem: "fst y \<in> {xmodem_io_rx_state ?s1, STATE_UART_RX_DONE, STATE_UART_ERROR h, STATE_TIMEOUT h}"
        by (simp_all add: P_def)
      from tr obtain n where
        "trace (snd y) = trace ?s1 @ replicate n (Load_rx_state STATE_WAITING) @ [Load_rx_state (fst y)]" ..
      with True have "trace (snd y) = trace s @ replicate (Suc n) (Load_rx_state STATE_WAITING) @ [Load_rx_state (fst y)]"
        by simp
      then have "\<exists>n. trace (snd y) = trace s @ replicate n (Load_rx_state STATE_WAITING) @ [Load_rx_state (fst y)]" ..
      moreover from mem True y(1) have "fst y \<in> {xmodem_io_rx_state s, STATE_UART_RX_DONE, STATE_UART_ERROR h, STATE_TIMEOUT h}"
        by auto
      ultimately show ?thesis using y by (simp add: P_def)
    next
      case False
      with step have y: "y = (?v, ?s1)"
        by (simp add: load_rx_state_def)
      have "trace ?s1 = trace s @ replicate 0 (Load_rx_state STATE_WAITING) @ [Load_rx_state ?v]"
        by simp
      then have "\<exists>n. trace ?s1 = trace s @ replicate n (Load_rx_state STATE_WAITING) @ [Load_rx_state ?v]" ..
      with False y deliver_rx_state_cases [of h "irq k" s] show ?thesis
        by (simp add: P_def)
    qed
  qed
  then show ?thesis by (simp add: P_def)
qed

lemma getc_wait_returns:
  assumes "hdr_ok h" and "xmodem_io_rx_state s = STATE_WAITING"
    and "\<forall>j<n. callbacks (irq (k + j)) = []" and "callbacks (irq (k + n)) \<noteq> []"
  shows "\<exists>s'. getc_wait h irq k s =
           Some (xmodem_io_rx_state (isr h (last (callbacks (irq (k + n)))) s), s')"
  using assms(2-)
proof (induction n arbitrary: k s)
  case 0
  let ?e = "last (callbacks (irq k))"
  from 0 have "is_callback ?e"
    using last_in_set [of "callbacks (irq k)"] by (auto simp: callbacks_def)
  with assms(1) have "xmodem_io_rx_state (isr h ?e s) \<noteq> STATE_WAITING"
    by (rule isr_callback_not_waiting)
  moreover from 0 have "xmodem_io_rx_state (deliver h (irq k) s) = xmodem_io_rx_state (isr h ?e s)"
    by (simp add: deliver_last_callback)
  ultimately show ?case
    by (subst getc_wait.simps) (simp add: load_rx_state_def)
next
  case (Suc n)
  let ?s1 = "act (Load_rx_state STATE_WAITING) (deliver h (irq k) s)"
  let ?e = "last (callbacks (irq (Suc k + n)))"
  from Suc.prems have quiet: "callbacks (irq k) = []"
    by (metis add.right_neutral zero_less_Suc)
  with Suc.prems have w: "xmodem_io_rx_state (deliver h (irq k) s) = STATE_WAITING"
    by (simp add: deliver_no_callbacks)
  then have "xmodem_io_rx_state ?s1 = STATE_WAITING" by simp
  moreover from Suc.prems have "\<forall>j<n. callbacks (irq (Suc k + j)) = []" by auto
  moreover from Suc.prems have fire: "callbacks (irq (Suc k + n)) \<noteq> []" by simp
  ultimately obtain s' where
    "getc_wait h irq (Suc k) ?s1 = Some (xmodem_io_rx_state (isr h ?e ?s1), s')"
    using Suc.IH [of ?s1 "Suc k"] by blast
  moreover have "is_callback ?e"
    using fire last_in_set [of "callbacks (irq (Suc k + n))"] by (auto simp: callbacks_def)
  then have "xmodem_io_rx_state (isr h ?e ?s1) = xmodem_io_rx_state (isr h ?e s)"
    by (rule isr_callback_rx_state)
  ultimately have "getc_wait h irq (Suc k) ?s1 = Some (xmodem_io_rx_state (isr h ?e s), s')"
    by simp
  with w have "getc_wait h irq k s = Some (xmodem_io_rx_state (isr h ?e s), s')"
    by (subst getc_wait.simps) (simp add: load_rx_state_def)
  then show ?case by simp
qed

section \<open>One call\<close>

lemma getc_start_trace:
  "trace (getc_start h env s) =
     trace s @ [Qm_rtc_set_config ((rtc_cfg s)\<lparr>alarm_en := True\<rparr>),
                Store_rx_state STATE_WAITING, Qm_uart_irq_read]"
  by (simp add: getc_start_def qm_uart_irq_read_def store_rx_state_def qm_rtc_set_config_def)

lemma getc_start_rx_state: "xmodem_io_rx_state (getc_start h env s) = STATE_WAITING"
  by (simp add: getc_start_def qm_uart_irq_read_def store_rx_state_def)

lemma getc_start_rtc_cfg: "rtc_cfg (getc_start h env s) = (rtc_cfg s)\<lparr>alarm_en := True\<rparr>"
  by (simp add: getc_start_def qm_uart_irq_read_def store_rx_state_def qm_rtc_set_config_def)

lemma deliver_reset:
  "(deliver h es (s\<lparr>xmodem_io_rx_state := v\<rparr>))\<lparr>xmodem_io_rx_state := w\<rparr> =
   (deliver h es s)\<lparr>xmodem_io_rx_state := w\<rparr>"
proof (induction es arbitrary: s v)
  case Nil
  show ?case by simp
next
  case (Cons e es)
  show ?case
  proof (cases e)
    case (Uart_rx_byte b)
    then have "isr h e (s\<lparr>xmodem_io_rx_state := v\<rparr>) = (isr h e s)\<lparr>xmodem_io_rx_state := v\<rparr>"
      by simp
    then show ?thesis by (simp only: deliver_Cons Cons.IH)
  next
    case (Uart_callback error status len)
    then have "isr h e (s\<lparr>xmodem_io_rx_state := v\<rparr>) = isr h e s"
      by (simp add: uart_callback_def)
    then show ?thesis by (simp only: deliver_Cons)
  next
    case Rtc_callback
    then have "isr h e (s\<lparr>xmodem_io_rx_state := v\<rparr>) = isr h e s"
      by (simp add: rtc_callback_def)
    then show ?thesis by (simp only: deliver_Cons)
  qed
qed

lemma getc_start_stale:
  "getc_start h env (s\<lparr>xmodem_io_rx_state := v\<rparr>) = getc_start h env s"
proof -
  let ?a = "\<lambda>s. qm_rtc_set_config (s\<lparr>rtc_cfg := (rtc_cfg s)\<lparr>alarm_en := True\<rparr>\<rparr>)"
  have "?a (s\<lparr>xmodem_io_rx_state := v\<rparr>) = (?a s)\<lparr>xmodem_io_rx_state := v\<rparr>"
    by (simp add: qm_rtc_set_config_def act_def)
  then have "store_rx_state STATE_WAITING (deliver h (irq_arm env) (?a (s\<lparr>xmodem_io_rx_state := v\<rparr>))) =
             store_rx_state STATE_WAITING (deliver h (irq_arm env) (?a s))"
    by (simp add: store_rx_state_def act_def deliver_reset)
  then show ?thesis by (simp add: getc_start_def)
qed

lemma getc_stale:
  "xmodem_io_getc h env ch (s\<lparr>xmodem_io_rx_state := v\<rparr>) = xmodem_io_getc h env ch s"
  by (simp add: xmodem_io_getc_def getc_start_stale)

lemma getc_SomeD:
  assumes "xmodem_io_getc h env ch s = Some (r, ch', s')"
  obtains sw where "getc_wait h (irq_poll env) 0 (getc_start h env s) = Some (r, sw)"
    and "getc_finish h ch r (deliver h (irq_done env) sw) = (r, ch', s')"
  using assms by (auto simp: xmodem_io_getc_def getc_finish_def split: option.splits prod.splits)

lemma getc_Some_result:
  assumes "xmodem_io_getc h env ch s = Some (r, ch', s')"
  shows "r \<noteq> STATE_WAITING" and "r \<in> {STATE_UART_RX_DONE, STATE_UART_ERROR h, STATE_TIMEOUT h}"
proof -
  from assms obtain sw where "getc_wait h (irq_poll env) 0 (getc_start h env s) = Some (r, sw)"
    by (rule getc_SomeD)
  from getc_wait_Some [OF this] show "r \<noteq> STATE_WAITING"
    and "r \<in> {STATE_UART_RX_DONE, STATE_UART_ERROR h, STATE_TIMEOUT h}"
    by (auto simp: getc_start_rx_state)
qed

lemma getc_Some_rtc_cfg:
  assumes "xmodem_io_getc h env ch s = Some (r, ch', s')"
  shows "rtc_cfg s' = (rtc_cfg s)\<lparr>alarm_en := False\<rparr>"
proof -
  from assms obtain sw where w: "getc_wait h (irq_poll env) 0 (getc_start h env s) = Some (r, sw)"
    and f: "getc_finish h ch r (deliver h (irq_done env) sw) = (r, ch', s')"
    by (rule getc_SomeD)
  from getc_wait_Some [OF w] have "rtc_cfg sw = (rtc_cfg s)\<lparr>alarm_en := True\<rparr>"
    by (simp add: getc_start_rtc_cfg)
  with f show ?thesis
    by (auto simp: getc_finish_def qm_rtc_set_config_def qm_uart_irq_read_terminate_def
        split: if_splits)
qed

lemma getc_Some_ch:
  assumes "xmodem_io_getc h env ch s = Some (r, ch', s')"
  shows "ch' = (if r \<noteq> STATE_TIMEOUT h \<and> r = STATE_UART_RX_DONE then in_byte s' else ch)"
proof -
  from assms obtain sw where
    "getc_finish h ch r (deliver h (irq_done env) sw) = (r, ch', s')"
    by (rule getc_SomeD)
  then show ?thesis
    by (auto simp: getc_finish_def qm_rtc_set_config_def qm_uart_irq_read_terminate_def act_def
        split: if_splits)
qed

lemma getc_Some_trace:
  assumes "xmodem_io_getc h env ch s = Some (r, ch', s')"
  shows "\<exists>n. trace s' = trace s @
           [Qm_rtc_set_config ((rtc_cfg s)\<lparr>alarm_en := True\<rparr>),
            Store_rx_state STATE_WAITING, Qm_uart_irq_read] @
           replicate n (Load_rx_state STATE_WAITING) @ [Load_rx_state r] @
           (if r = STATE_TIMEOUT h then [Qm_uart_irq_read_terminate]
            else if r = STATE_UART_RX_DONE then [Store_ch ch'] else []) @
           [Qm_rtc_set_config ((rtc_cfg s)\<lparr>alarm_en := False\<rparr>)]"
proof -
  from assms obtain sw where w: "getc_wait h (irq_poll env) 0 (getc_start h env s) = Some (r, sw)"
    and f: "getc_finish h ch r (deliver h (irq_done env) sw) = (r, ch', s')"
    by (rule getc_SomeD)
  from getc_wait_Some [OF w] obtain n where
    tr: "trace sw = trace (getc_start h env s) @ replicate n (Load_rx_state STATE_WAITING) @ [Load_rx_state r]"
    and cfg: "rtc_cfg sw = (rtc_cfg s)\<lparr>alarm_en := True\<rparr>"
    by (auto simp: getc_start_rtc_cfg)
  from f tr cfg have "trace s' = trace s @
           [Qm_rtc_set_config ((rtc_cfg s)\<lparr>alarm_en := True\<rparr>),
            Store_rx_state STATE_WAITING, Qm_uart_irq_read] @
           replicate n (Load_rx_state STATE_WAITING) @ [Load_rx_state r] @
           (if r = STATE_TIMEOUT h then [Qm_uart_irq_read_terminate]
            else if r = STATE_UART_RX_DONE then [Store_ch ch'] else []) @
           [Qm_rtc_set_config ((rtc_cfg s)\<lparr>alarm_en := False\<rparr>)]"
    by (auto simp: getc_finish_def getc_start_trace qm_rtc_set_config_def
        qm_uart_irq_read_terminate_def split: if_splits)
  then show ?thesis ..
qed

lemma getc_Some_call_trace:
  assumes "xmodem_io_getc h env ch s = Some (r, ch', s')"
  shows "\<exists>n. call_trace s s' =
           [Qm_rtc_set_config ((rtc_cfg s)\<lparr>alarm_en := True\<rparr>),
            Store_rx_state STATE_WAITING, Qm_uart_irq_read] @
           replicate n (Load_rx_state STATE_WAITING) @ [Load_rx_state r] @
           (if r = STATE_TIMEOUT h then [Qm_uart_irq_read_terminate]
            else if r = STATE_UART_RX_DONE then [Store_ch ch'] else []) @
           [Qm_rtc_set_config ((rtc_cfg s)\<lparr>alarm_en := False\<rparr>)]"
proof -
  from getc_Some_trace [OF assms] obtain n where "trace s' = trace s @
           [Qm_rtc_set_config ((rtc_cfg s)\<lparr>alarm_en := True\<rparr>),
            Store_rx_state STATE_WAITING, Qm_uart_irq_read] @
           replicate n (Load_rx_state STATE_WAITING) @ [Load_rx_state r] @
           (if r = STATE_TIMEOUT h then [Qm_uart_irq_read_terminate]
            else if r = STATE_UART_RX_DONE then [Store_ch ch'] else []) @
           [Qm_rtc_set_config ((rtc_cfg s)\<lparr>alarm_en := False\<rparr>)]" ..
  then have "call_trace s s' =
           [Qm_rtc_set_config ((rtc_cfg s)\<lparr>alarm_en := True\<rparr>),
            Store_rx_state STATE_WAITING, Qm_uart_irq_read] @
           replicate n (Load_rx_state STATE_WAITING) @ [Load_rx_state r] @
           (if r = STATE_TIMEOUT h then [Qm_uart_irq_read_terminate]
            else if r = STATE_UART_RX_DONE then [Store_ch ch'] else []) @
           [Qm_rtc_set_config ((rtc_cfg s)\<lparr>alarm_en := False\<rparr>)]"
    by (simp add: call_trace_def)
  then show ?thesis ..
qed

lemma getc_returns:
  assumes "hdr_ok h" and "\<forall>j<n. callbacks (irq_poll env j) = []"
    and "callbacks (irq_poll env n) \<noteq> []"
  shows "\<exists>ch' s'. xmodem_io_getc h env ch s =
           Some (xmodem_io_rx_state (isr h (last (callbacks (irq_poll env n))) s), ch', s')"
proof -
  let ?e = "last (callbacks (irq_poll env n))"
  have "is_callback ?e"
    using assms(3) last_in_set [of "callbacks (irq_poll env n)"] by (auto simp: callbacks_def)
  then have eq: "xmodem_io_rx_state (isr h ?e (getc_start h env s)) = xmodem_io_rx_state (isr h ?e s)"
    by (rule isr_callback_rx_state)
  from assms obtain sw where
    "getc_wait h (irq_poll env) 0 (getc_start h env s) =
       Some (xmodem_io_rx_state (isr h ?e (getc_start h env s)), sw)"
    using getc_wait_returns [of h "getc_start h env s" n "irq_poll env" 0]
    by (auto simp: getc_start_rx_state)
  with eq show ?thesis
    by (simp add: xmodem_io_getc_def getc_finish_def split: prod.splits)
qed

section \<open>The received byte\<close>

lemma deliver_append: "deliver h (xs @ ys) s = deliver h ys (deliver h xs s)"
  by (simp add: deliver_def)

lemma isr_in_byte: "in_byte s = in_byte t \<Longrightarrow> in_byte (isr h e s) = in_byte (isr h e t)"
  by (cases e) (simp_all add: uart_callback_def rtc_callback_def)

lemma deliver_in_byte:
  "in_byte s = in_byte t \<Longrightarrow> in_byte (deliver h es s) = in_byte (deliver h es t)"
proof (induction es arbitrary: s t)
  case Nil
  then show ?case by simp
next
  case (Cons e es)
  from Cons.prems have "in_byte (isr h e s) = in_byte (isr h e t)"
    by (rule isr_in_byte)
  then have "in_byte (deliver h es (isr h e s)) = in_byte (deliver h es (isr h e t))"
    by (rule Cons.IH)
  then show ?case by simp
qed

lemma getc_wait_returns_in_byte:
  assumes "hdr_ok h" and "xmodem_io_rx_state s = STATE_WAITING"
    and "\<forall>j<n. callbacks (irq (k + j)) = []" and "callbacks (irq (k + n)) \<noteq> []"
    and "getc_wait h irq k s = Some (r, s')"
  shows "in_byte s' = in_byte (deliver h (concat (map irq [k..<Suc (k + n)])) s)"
  using assms(2-)
proof (induction n arbitrary: k s)
  case 0
  let ?e = "last (callbacks (irq k))"
  from "0.prems"(3) have fire: "callbacks (irq k) \<noteq> []" by simp
  then have "is_callback ?e"
    using last_in_set [of "callbacks (irq k)"] by (auto simp: callbacks_def)
  with assms(1) have "xmodem_io_rx_state (isr h ?e s) \<noteq> STATE_WAITING"
    by (rule isr_callback_not_waiting)
  moreover from fire have "xmodem_io_rx_state (deliver h (irq k) s) = xmodem_io_rx_state (isr h ?e s)"
    by (rule deliver_last_callback)
  ultimately have "getc_wait h irq k s =
      Some (xmodem_io_rx_state (deliver h (irq k) s),
            act (Load_rx_state (xmodem_io_rx_state (deliver h (irq k) s))) (deliver h (irq k) s))"
    by (subst getc_wait.simps) (simp add: load_rx_state_def)
  with "0.prems"(4) have "s' = act (Load_rx_state (xmodem_io_rx_state (deliver h (irq k) s))) (deliver h (irq k) s)"
    by auto
  then show ?case by simp
next
  case (Suc n)
  let ?s1 = "act (Load_rx_state STATE_WAITING) (deliver h (irq k) s)"
  from Suc.prems(2) have "callbacks (irq (k + 0)) = []" by blast
  then have quiet: "callbacks (irq k) = []" by simp
  with Suc.prems(1) have w: "xmodem_io_rx_state (deliver h (irq k) s) = STATE_WAITING"
    by (simp add: deliver_no_callbacks)
  then have "getc_wait h irq k s = getc_wait h irq (Suc k) ?s1"
    by (subst getc_wait.simps) (simp add: load_rx_state_def)
  with Suc.prems(4) have ret: "getc_wait h irq (Suc k) ?s1 = Some (r, s')" by simp
  have "xmodem_io_rx_state ?s1 = STATE_WAITING" using w by simp
  moreover from Suc.prems(2) have "\<forall>j<n. callbacks (irq (Suc k + j)) = []" by auto
  moreover from Suc.prems(3) have "callbacks (irq (Suc k + n)) \<noteq> []" by simp
  ultimately have "in_byte s' = in_byte (deliver h (concat (map irq [Suc k..<Suc (Suc k + n)])) ?s1)"
    using ret by (rule Suc.IH)
  also have "\<dots> = in_byte (deliver h (concat (map irq [Suc k..<Suc (Suc k + n)])) (deliver h (irq k) s))"
    by (rule deliver_in_byte) simp
  also have "\<dots> = in_byte (deliver h (irq k @ concat (map irq [Suc k..<Suc (Suc k + n)])) s)"
    by (simp only: deliver_append)
  also have "irq k @ concat (map irq [Suc k..<Suc (Suc k + n)]) = concat (map irq [k..<Suc (k + Suc n)])"
  proof -
    have "[k..<Suc (Suc (k + n))] = k # [Suc k..<Suc (Suc (k + n))]"
      by (rule upt_conv_Cons) simp
    then show ?thesis
      by (simp only: add_Suc add_Suc_right list.map concat.simps)
  qed
  finally show ?case .
qed

lemma getc_start_in_byte: "in_byte (getc_start h env s) = in_byte (deliver h (irq_arm env) s)"
proof -
  have "in_byte (deliver h (irq_arm env) (qm_rtc_set_config (s\<lparr>rtc_cfg := (rtc_cfg s)\<lparr>alarm_en := True\<rparr>\<rparr>))) =
        in_byte (deliver h (irq_arm env) s)"
    by (rule deliver_in_byte) (simp add: qm_rtc_set_config_def)
  then show ?thesis
    by (simp add: getc_start_def qm_uart_irq_read_def store_rx_state_def)
qed

lemma getc_finish_in_byte:
  "getc_finish h ch r s = (r', ch', s') \<Longrightarrow> in_byte s' = in_byte s"
  by (auto simp: getc_finish_def qm_rtc_set_config_def qm_uart_irq_read_terminate_def
      split: if_splits)

lemma getc_Some_in_byte:
  assumes "hdr_ok h" and "\<forall>j<n. callbacks (irq_poll env j) = []"
    and "callbacks (irq_poll env n) \<noteq> []"
    and "xmodem_io_getc h env ch s = Some (r, ch', s')"
  shows "in_byte s' =
           in_byte (deliver h (irq_arm env @ concat (map (irq_poll env) [0..<Suc n]) @ irq_done env) s)"
proof -
  let ?w = "concat (map (irq_poll env) [0..<Suc n])"
  from assms(4) obtain sw where w: "getc_wait h (irq_poll env) 0 (getc_start h env s) = Some (r, sw)"
    and f: "getc_finish h ch r (deliver h (irq_done env) sw) = (r, ch', s')"
    by (rule getc_SomeD)
  from assms(1-3) w have "in_byte sw = in_byte (deliver h ?w (getc_start h env s))"
    using getc_wait_returns_in_byte [of h "getc_start h env s" n "irq_poll env" 0 r sw]
    by (simp add: getc_start_rx_state)
  also have "\<dots> = in_byte (deliver h ?w (deliver h (irq_arm env) s))"
    by (rule deliver_in_byte) (rule getc_start_in_byte)
  finally have "in_byte (deliver h (irq_done env) sw) =
      in_byte (deliver h (irq_done env) (deliver h ?w (deliver h (irq_arm env) s)))"
    by (rule deliver_in_byte)
  with getc_finish_in_byte [OF f] show ?thesis
    by (simp add: deliver_append)
qed

section \<open>Observations of a trace\<close>

lemma ch_stores_append: "ch_stores (xs @ ys) = ch_stores xs @ ch_stores ys"
  by (induction xs rule: ch_stores.induct) simp_all

lemma ch_stores_replicate_Load: "ch_stores (replicate n (Load_rx_state v)) = []"
  by (induction n) simp_all

lemma loads_append: "loads (xs @ ys) = loads xs @ loads ys"
  by (induction xs rule: loads.induct) simp_all

lemma loads_replicate_Load: "loads (replicate n (Load_rx_state v)) = replicate n v"
  by (induction n) simp_all

lemma rtc_configs_append: "rtc_configs (xs @ ys) = rtc_configs xs @ rtc_configs ys"
  by (induction xs rule: rtc_configs.induct) simp_all

lemma rtc_configs_replicate_Load: "rtc_configs (replicate n (Load_rx_state v)) = []"
  by (induction n) simp_all

section \<open>The example calls\<close>

lemma h0_ok: "hdr_ok h0"
  by (simp add: hdr_ok_def h0_def)

lemma getc_env_fault: "xmodem_io_getc h0 env_fault 7 (xmodem_io_init h0) = Some (- 5, 7, s_fault)"
  by code_simp

lemma getc_env_byte: "xmodem_io_getc h0 env_byte 7 (xmodem_io_init h0) = Some (1, 65, s_byte)"
  by code_simp

lemma getc_env_timeout: "xmodem_io_getc h0 env_timeout 7 (xmodem_io_init h0) = Some (- 62, 7, s_timeout)"
  by code_simp

lemma call_trace_init: "call_trace (xmodem_io_init h) s = trace s"
  by (simp add: call_trace_def xmodem_io_init_def)

section \<open>Calls that do not return\<close>

text \<open>
  The loop has no bound of its own: when no callback ever preempts it, the call does not
  return.
\<close>

lemma getc_wait_quiet:
  assumes "\<forall>j. callbacks (irq j) = []" and "xmodem_io_rx_state s = STATE_WAITING"
  shows "getc_wait h irq k s = None"
proof (rule ccontr)
  assume "getc_wait h irq k s \<noteq> None"
  then obtain y where y: "getc_wait h irq k s = Some y" by auto
  define P :: "hdr \<Rightarrow> (nat \<Rightarrow> 'a irq list) \<Rightarrow> nat \<Rightarrow> xmodem_io \<Rightarrow> int \<times> xmodem_io \<Rightarrow> bool" where
    "P = (\<lambda>h irq k s y. \<not> ((\<forall>j. callbacks (irq j) = []) \<and> xmodem_io_rx_state s = STATE_WAITING))"
  have "P h irq k s y"
  proof (rule getc_wait.raw_induct [where P = P, OF _ y])
    fix f :: "hdr \<Rightarrow> (nat \<Rightarrow> 'a irq list) \<Rightarrow> nat \<Rightarrow> xmodem_io \<Rightarrow> (int \<times> xmodem_io) option"
    fix h irq k s y
    assume IH: "\<And>h irq k s y. f h irq k s = Some y \<Longrightarrow> P h irq k s y"
    assume step: "(case load_rx_state (deliver h (irq k) s) of
                     (retv, s') \<Rightarrow> if retv = STATE_WAITING then f h irq (Suc k) s' else Some (retv, s'))
                  = Some y"
    show "P h irq k s y"
      unfolding P_def
    proof
      assume q: "(\<forall>j. callbacks (irq j) = []) \<and> xmodem_io_rx_state s = STATE_WAITING"
      then have w: "xmodem_io_rx_state (deliver h (irq k) s) = STATE_WAITING"
        by (simp add: deliver_no_callbacks)
      with step have "f h irq (Suc k) (act (Load_rx_state STATE_WAITING) (deliver h (irq k) s)) = Some y"
        by (simp add: load_rx_state_def)
      from IH [OF this] q w show False by (simp add: P_def)
    qed
  qed
  with assms show False by (simp add: P_def)
qed

lemma getc_quiet: "\<forall>j. callbacks (irq_poll env j) = [] \<Longrightarrow> xmodem_io_getc h env ch s = None"
  by (simp add: xmodem_io_getc_def getc_wait_quiet getc_start_rx_state)

section \<open>Properties of the callbacks\<close>

text \<open>
  C9. \<open>uart_callback\<close> decides by the sign of \<open>error\<close> alone: a negative code stores
  \<open>STATE_UART_ERROR\<close>, any other code (zero included) stores \<open>STATE_UART_RX_DONE\<close>,
  nothing else of the state changes, and \<open>status\<close> and \<open>len\<close> (and \<open>data\<close>) have no
  influence on the result.
\<close>

theorem uart_callback_sign:
  "uart_callback h data error status len s =
     s\<lparr>xmodem_io_rx_state := (if error < 0 then STATE_UART_ERROR h else STATE_UART_RX_DONE)\<rparr> \<and>
   uart_callback h data error status len s = uart_callback h data' error status' len' s"
  by (simp add: uart_callback_def)

theorem uart_callback_sign_witness:
  "xmodem_io_rx_state (uart_callback h0 NULL (- 1) () 0 (xmodem_io_init h0)) = - 5 \<and>
   xmodem_io_rx_state (uart_callback h0 NULL 0 () 1 (xmodem_io_init h0)) = 1"
proof -
  note a = uart_callback_sign [of h0 NULL "- 1" "()" 0 "xmodem_io_init h0", THEN conjunct1]
  note b = uart_callback_sign [of h0 NULL 0 "()" 1 "xmodem_io_init h0", THEN conjunct1]
  show ?thesis by (simp add: a b) (simp add: h0_def enum_defs)
qed

text \<open>
  C2, as stated, fails: the state cell holds the terminal outcome \<open>STATE_UART_RX_DONE\<close>,
  and \<open>rtc_callback\<close> overwrites it with \<open>STATE_TIMEOUT\<close>. Within one call (the one
  with \<open>env_race\<close>) the cell goes from \<open>STATE_WAITING\<close> to \<open>STATE_UART_RX_DONE\<close> and on
  to \<open>STATE_TIMEOUT\<close>, and the call returns \<open>-ETIME\<close> although the byte had arrived.
\<close>

theorem rtc_callback_overwrites_counterexample:
  "xmodem_io_rx_state ((xmodem_io_init h0)\<lparr>xmodem_io_rx_state := STATE_UART_RX_DONE\<rparr>) \<noteq> STATE_WAITING \<and>
   xmodem_io_rx_state
     (rtc_callback h0 NULL ((xmodem_io_init h0)\<lparr>xmodem_io_rx_state := STATE_UART_RX_DONE\<rparr>)) \<noteq>
   xmodem_io_rx_state ((xmodem_io_init h0)\<lparr>xmodem_io_rx_state := STATE_UART_RX_DONE\<rparr>) \<and>
   xmodem_io_rx_state (getc_start h0 env_race (xmodem_io_init h0)) = STATE_WAITING \<and>
   xmodem_io_rx_state
     (deliver h0 [Uart_rx_byte 65, Uart_callback 0 () 1] (getc_start h0 env_race (xmodem_io_init h0))) =
   STATE_UART_RX_DONE \<and>
   xmodem_io_rx_state
     (deliver h0 [Uart_rx_byte 65, Uart_callback 0 () 1, Rtc_callback]
       (getc_start h0 env_race (xmodem_io_init h0))) =
   STATE_TIMEOUT h0 \<and>
   irq_poll env_race 1 = [Uart_rx_byte 65, Uart_callback 0 () 1, Rtc_callback] \<and>
   map_option fst (xmodem_io_getc h0 env_race 7 (xmodem_io_init h0)) = Some (- 62)"
  by code_simp

text \<open>
  C2, amended. The state cell is not written once: each callback stores its outcome
  whatever the cell holds (\<open>rtc_callback\<close> always stores \<open>STATE_TIMEOUT\<close>,
  \<open>uart_callback\<close> always stores \<open>STATE_UART_ERROR\<close> or \<open>STATE_UART_RX_DONE\<close>). What
  is fixed for a call is the status it returns: the value of the load that ends the
  loop, which the interrupts after that load do not change.
\<close>

theorem callbacks_store_unconditionally:
  "xmodem_io_rx_state (rtc_callback h data s) = STATE_TIMEOUT h \<and>
   xmodem_io_rx_state (uart_callback h data error status len s) \<in>
     {STATE_UART_ERROR h, STATE_UART_RX_DONE} \<and>
   map_option fst (xmodem_io_getc h (env\<lparr>irq_done := es\<rparr>) ch s) =
     map_option fst (xmodem_io_getc h env ch s)"
  by (simp add: rtc_callback_def uart_callback_def xmodem_io_getc_def getc_start_def
      getc_finish_def split: option.splits prod.splits)

theorem callbacks_store_unconditionally_witness:
  "xmodem_io_rx_state
     (rtc_callback h0 NULL ((xmodem_io_init h0)\<lparr>xmodem_io_rx_state := STATE_UART_RX_DONE\<rparr>)) = - 62 \<and>
   map_option fst
     (xmodem_io_getc h0 (env_byte\<lparr>irq_done := [Rtc_callback]\<rparr>) 7
       ((xmodem_io_init h0)\<lparr>xmodem_io_rx_state := STATE_UART_RX_DONE\<rparr>)) = Some 1"
proof -
  have "map_option fst
     (xmodem_io_getc h0 env_byte 7
       ((xmodem_io_init h0)\<lparr>xmodem_io_rx_state := STATE_UART_RX_DONE\<rparr>)) = Some 1"
    by code_simp
  with callbacks_store_unconditionally
    [where h = h0 and data = NULL and error = 0 and status = "()" and len = 0
      and s = "(xmodem_io_init h0)\<lparr>xmodem_io_rx_state := STATE_UART_RX_DONE\<rparr>"
      and env = env_byte and es = "[Rtc_callback]" and ch = 7]
  show ?thesis by (simp add: h0_def enum_defs)
qed

section \<open>Properties of a call\<close>

text \<open>
  C1, as stated, fails: the UART callback reports the fault code \<open>-22\<close>, and the call
  returns \<open>-5\<close>, the value of \<open>-EIO\<close>, not the code reported.
\<close>

theorem getc_fault_code_counterexample:
  "last (callbacks (irq_poll env_fault 2)) = Uart_callback (- 22) () 0 \<and>
   map_option fst (xmodem_io_getc h0 env_fault 7 (xmodem_io_init h0)) = Some (- 5) \<and>
   map_option fst (xmodem_io_getc h0 env_fault 7 (xmodem_io_init h0)) \<noteq> Some (- 22)"
  by code_simp

text \<open>
  C1, amended. When the callback that the loop observes (the last one before the first
  load that follows a callback) is \<open>uart_callback\<close> with a negative error code, the call
  returns, its status is the fixed value \<open>-EIO\<close> whatever the code reported, and the
  caller's byte is left as it was.
\<close>

theorem getc_line_error:
  assumes "hdr_ok h"
    and "\<forall>j<n. callbacks (irq_poll env j) = []"
    and "callbacks (irq_poll env n) \<noteq> []"
    and "last (callbacks (irq_poll env n)) = Uart_callback error status len"
    and "error < 0"
  shows "\<exists>s'. xmodem_io_getc h env ch s = Some (- EIO h, ch, s')"
proof -
  from assms(4,5) have "xmodem_io_rx_state (isr h (last (callbacks (irq_poll env n))) s) = - EIO h"
    by (simp add: uart_callback_def STATE_UART_ERROR_def)
  with getc_returns [OF assms(1-3), of ch s] obtain ch' s' where
    ret: "xmodem_io_getc h env ch s = Some (- EIO h, ch', s')"
    by auto
  from assms(1) have "- EIO h \<noteq> STATE_UART_RX_DONE"
    by (simp add: hdr_ok_def STATE_UART_RX_DONE_def)
  with getc_Some_ch [OF ret] have "ch' = ch" by simp
  with ret show ?thesis by simp
qed

theorem getc_line_error_witness:
  "hdr_ok h0 \<and> callbacks (irq_poll env_fault 0) = [] \<and> callbacks (irq_poll env_fault 1) = [] \<and>
   last (callbacks (irq_poll env_fault 2)) = Uart_callback (- 22) () 0 \<and>
   (\<exists>s'. xmodem_io_getc h0 env_fault 7 (xmodem_io_init h0) = Some (- 5, 7, s'))"
proof -
  have a: "hdr_ok h0" by (simp add: hdr_ok_def h0_def)
  have b: "\<forall>j<2. callbacks (irq_poll env_fault j) = []"
    by (simp add: env_fault_def callbacks_def)
  have c: "callbacks (irq_poll env_fault 2) \<noteq> []"
    by (simp add: env_fault_def callbacks_def)
  have d: "last (callbacks (irq_poll env_fault 2)) = Uart_callback (- 22) () 0"
    by (simp add: env_fault_def callbacks_def)
  have e: "(- 22 :: int) < 0" by simp
  have b': "callbacks (irq_poll env_fault 0) = [] \<and> callbacks (irq_poll env_fault 1) = []"
    by (simp add: env_fault_def callbacks_def)
  from getc_line_error [OF a b c d e, of 7 "xmodem_io_init h0"] a b' d show ?thesis
    by (simp add: h0_def)
qed

text \<open>
  C3. A call that returns \<open>STATE_UART_RX_DONE\<close> (the value 1) has stored through \<open>ch\<close>
  exactly once, and the byte stored is the content of \<open>in_byte\<close> at the \<open>switch\<close>;
  a call that returns anything else (\<open>STATE_UART_ERROR\<close> or \<open>STATE_TIMEOUT\<close>) has not
  stored through \<open>ch\<close>, and the caller's byte is as it was. A byte \<open>b\<close> that the UART
  handler stores, followed by the completion callback without error, both before the
  first load that follows a callback, makes the call return 1 with \<open>b\<close> in the
  caller's byte.
\<close>

theorem getc_ch_store:
  assumes "hdr_ok h"
  shows "(xmodem_io_getc h env ch s = Some (r, ch', s') \<longrightarrow>
            (if r = STATE_UART_RX_DONE
             then r = 1 \<and> ch_stores (call_trace s s') = [ch'] \<and> ch' = in_byte s' \<and>
                  (\<exists>sw. getc_wait h (irq_poll env) 0 (getc_start h env s) = Some (r, sw) \<and>
                        ch' = in_byte (deliver h (irq_done env) sw))
             else r \<in> {STATE_UART_ERROR h, STATE_TIMEOUT h} \<and>
                  ch_stores (call_trace s s') = [] \<and> ch' = ch)) \<and>
         ((\<forall>j<n. callbacks (irq_poll env j) = []) \<and>
          irq_poll env n = es @ [Uart_rx_byte b, Uart_callback error status len] \<and> 0 \<le> error \<and>
          irq_done env = [] \<longrightarrow>
            (\<exists>s'. xmodem_io_getc h env ch s = Some (1, b, s')))"
proof (intro conjI impI)
  assume ret: "xmodem_io_getc h env ch s = Some (r, ch', s')"
  from assms have ne: "STATE_UART_RX_DONE \<noteq> STATE_TIMEOUT h"
    by (simp add: hdr_ok_def enum_defs)
  from getc_Some_call_trace [OF ret] obtain m where tr: "call_trace s s' =
           [Qm_rtc_set_config ((rtc_cfg s)\<lparr>alarm_en := True\<rparr>),
            Store_rx_state STATE_WAITING, Qm_uart_irq_read] @
           replicate m (Load_rx_state STATE_WAITING) @ [Load_rx_state r] @
           (if r = STATE_TIMEOUT h then [Qm_uart_irq_read_terminate]
            else if r = STATE_UART_RX_DONE then [Store_ch ch'] else []) @
           [Qm_rtc_set_config ((rtc_cfg s)\<lparr>alarm_en := False\<rparr>)]" ..
  show "if r = STATE_UART_RX_DONE
        then r = 1 \<and> ch_stores (call_trace s s') = [ch'] \<and> ch' = in_byte s' \<and>
             (\<exists>sw. getc_wait h (irq_poll env) 0 (getc_start h env s) = Some (r, sw) \<and>
                   ch' = in_byte (deliver h (irq_done env) sw))
        else r \<in> {STATE_UART_ERROR h, STATE_TIMEOUT h} \<and>
             ch_stores (call_trace s s') = [] \<and> ch' = ch"
  proof (cases "r = STATE_UART_RX_DONE")
    case True
    with ne tr have "ch_stores (call_trace s s') = [ch']"
      by (simp add: ch_stores_append ch_stores_replicate_Load)
    moreover from True ne getc_Some_ch [OF ret] have ch': "ch' = in_byte s'" by simp
    moreover from ret obtain sw where
      w: "getc_wait h (irq_poll env) 0 (getc_start h env s) = Some (r, sw)"
      and f: "getc_finish h ch r (deliver h (irq_done env) sw) = (r, ch', s')"
      by (rule getc_SomeD)
    from getc_finish_in_byte [OF f] ch' have "ch' = in_byte (deliver h (irq_done env) sw)"
      by simp
    with w have "\<exists>sw. getc_wait h (irq_poll env) 0 (getc_start h env s) = Some (r, sw) \<and>
                   ch' = in_byte (deliver h (irq_done env) sw)"
      by blast
    ultimately show ?thesis using True by (simp add: STATE_UART_RX_DONE_def)
  next
    case False
    with tr have "ch_stores (call_trace s s') = []"
      by (simp add: ch_stores_append ch_stores_replicate_Load)
    moreover from False getc_Some_ch [OF ret] have "ch' = ch" by simp
    moreover from False getc_Some_result(2) [OF ret]
    have "r \<in> {STATE_UART_ERROR h, STATE_TIMEOUT h}" by simp
    ultimately show ?thesis using False by simp
  qed
next
  assume a: "(\<forall>j<n. callbacks (irq_poll env j) = []) \<and>
          irq_poll env n = es @ [Uart_rx_byte b, Uart_callback error status len] \<and> 0 \<le> error \<and>
          irq_done env = []"
  then have quiet: "\<forall>j<n. callbacks (irq_poll env j) = []"
    and win: "irq_poll env n = es @ [Uart_rx_byte b, Uart_callback error status len]"
    and err: "0 \<le> error" and nodone: "irq_done env = []"
    by simp_all
  from win have fire: "callbacks (irq_poll env n) \<noteq> []"
    and lst: "last (callbacks (irq_poll env n)) = Uart_callback error status len"
    by (simp_all add: callbacks_def)
  from lst err have "xmodem_io_rx_state (isr h (last (callbacks (irq_poll env n))) s) = 1"
    by (simp add: uart_callback_def STATE_UART_RX_DONE_def)
  with getc_returns [OF assms quiet fire, of ch s] obtain ch' s' where
    ret: "xmodem_io_getc h env ch s = Some (1, ch', s')"
    by auto
  from assms have "(1::int) \<noteq> STATE_TIMEOUT h"
    by (simp add: hdr_ok_def enum_defs)
  with getc_Some_ch [OF ret] have "ch' = in_byte s'"
    by (simp add: STATE_UART_RX_DONE_def)
  also have "\<dots> = in_byte
      (deliver h (irq_arm env @ concat (map (irq_poll env) [0..<Suc n]) @ irq_done env) s)"
    using assms quiet fire ret by (rule getc_Some_in_byte)
  also have "\<dots> = b"
    by (simp add: win nodone deliver_append uart_callback_def)
  finally show "\<exists>s'. xmodem_io_getc h env ch s = Some (1, b, s')"
    using ret by simp
qed

theorem getc_ch_store_witness:
  "hdr_ok h0 \<and>
   xmodem_io_getc h0 env_byte 7 (xmodem_io_init h0) = Some (1, 65, s_byte) \<and>
   ch_stores (call_trace (xmodem_io_init h0) s_byte) = [65] \<and>
   xmodem_io_getc h0 env_timeout 7 (xmodem_io_init h0) = Some (- 62, 7, s_timeout) \<and>
   ch_stores (call_trace (xmodem_io_init h0) s_timeout) = [] \<and>
   callbacks (irq_poll env_byte 0) = [] \<and>
   irq_poll env_byte 1 = [] @ [Uart_rx_byte 65, Uart_callback 0 () 1] \<and>
   irq_done env_byte = [] \<and>
   (\<exists>s'. xmodem_io_getc h0 env_byte 9 (xmodem_io_init h0) = Some (1, 65, s'))"
proof -
  note t = getc_ch_store [OF h0_ok]
  have q: "\<forall>j<1. callbacks (irq_poll env_byte j) = []"
    by (simp add: env_byte_def callbacks_def)
  have w: "irq_poll env_byte 1 = [] @ [Uart_rx_byte 65, Uart_callback 0 () 1]"
    by (simp add: env_byte_def)
  have d: "irq_done env_byte = []"
    by (simp add: env_byte_def)
  from t [where env = env_byte and ch = 7 and s = "xmodem_io_init h0" and r = 1 and ch' = 65
      and s' = s_byte, THEN conjunct1] getc_env_byte
  have 1: "ch_stores (call_trace (xmodem_io_init h0) s_byte) = [65]"
    by (simp add: STATE_UART_RX_DONE_def)
  from t [where env = env_timeout and ch = 7 and s = "xmodem_io_init h0" and r = "- 62" and ch' = 7
      and s' = s_timeout, THEN conjunct1] getc_env_timeout
  have 2: "ch_stores (call_trace (xmodem_io_init h0) s_timeout) = []"
    by (simp add: STATE_UART_RX_DONE_def)
  from t [where env = env_byte and n = 1 and es = "[]" and b = 65 and error = 0 and status = "()"
      and len = 1 and ch = 9 and s = "xmodem_io_init h0", THEN conjunct2] q w d
  have 3: "\<exists>s'. xmodem_io_getc h0 env_byte 9 (xmodem_io_init h0) = Some (1, 65, s')"
    by simp
  from q have q0: "callbacks (irq_poll env_byte 0) = []" by simp
  from h0_ok getc_env_byte getc_env_timeout 1 2 3 q0 w d show ?thesis by simp
qed

text \<open>
  C4. When the callback that the loop observes is \<open>rtc_callback\<close>, the call returns
  the timeout code \<open>-ETIME\<close> and leaves the caller's byte as it was. A call that returns
  has called \<open>qm_uart_irq_read_terminate\<close> exactly when its status is \<open>-ETIME\<close>: then
  the call comes right after the last load and before the alarm is disabled, and on the
  paths of \<open>STATE_UART_RX_DONE\<close> and \<open>STATE_UART_ERROR\<close> there is no such call.
\<close>

theorem getc_timeout_terminates_read:
  assumes "hdr_ok h"
  shows "((\<forall>j<n. callbacks (irq_poll env j) = []) \<and> callbacks (irq_poll env n) \<noteq> [] \<and>
          last (callbacks (irq_poll env n)) = Rtc_callback \<longrightarrow>
            (\<exists>s'. xmodem_io_getc h env ch s = Some (- ETIME h, ch, s'))) \<and>
         (xmodem_io_getc h env ch s = Some (r, ch', s') \<longrightarrow>
            (Qm_uart_irq_read_terminate \<in> set (call_trace s s')) = (r = - ETIME h) \<and>
            (r = - ETIME h \<longrightarrow>
               (\<exists>tr. call_trace s s' =
                  tr @ [Load_rx_state r, Qm_uart_irq_read_terminate, Qm_rtc_set_config (rtc_cfg s')])) \<and>
            (r = STATE_UART_RX_DONE \<or> r = STATE_UART_ERROR h \<longrightarrow>
               Qm_uart_irq_read_terminate \<notin> set (call_trace s s')))"
proof (intro conjI impI)
  assume a: "(\<forall>j<n. callbacks (irq_poll env j) = []) \<and> callbacks (irq_poll env n) \<noteq> [] \<and>
          last (callbacks (irq_poll env n)) = Rtc_callback"
  then have quiet: "\<forall>j<n. callbacks (irq_poll env j) = []"
    and fire: "callbacks (irq_poll env n) \<noteq> []"
    and lst: "last (callbacks (irq_poll env n)) = Rtc_callback"
    by simp_all
  from lst have "xmodem_io_rx_state (isr h (last (callbacks (irq_poll env n))) s) = - ETIME h"
    by (simp add: rtc_callback_def STATE_TIMEOUT_def)
  with getc_returns [OF assms quiet fire, of ch s] obtain ch' s' where
    ret: "xmodem_io_getc h env ch s = Some (- ETIME h, ch', s')"
    by auto
  from getc_Some_ch [OF ret] have "ch' = ch"
    by (simp add: STATE_TIMEOUT_def)
  with ret show "\<exists>s'. xmodem_io_getc h env ch s = Some (- ETIME h, ch, s')" by simp
next
  assume ret: "xmodem_io_getc h env ch s = Some (r, ch', s')"
  from getc_Some_call_trace [OF ret] obtain m where tr: "call_trace s s' =
           [Qm_rtc_set_config ((rtc_cfg s)\<lparr>alarm_en := True\<rparr>),
            Store_rx_state STATE_WAITING, Qm_uart_irq_read] @
           replicate m (Load_rx_state STATE_WAITING) @ [Load_rx_state r] @
           (if r = STATE_TIMEOUT h then [Qm_uart_irq_read_terminate]
            else if r = STATE_UART_RX_DONE then [Store_ch ch'] else []) @
           [Qm_rtc_set_config ((rtc_cfg s)\<lparr>alarm_en := False\<rparr>)]" ..
  from tr show iff: "(Qm_uart_irq_read_terminate \<in> set (call_trace s s')) = (r = - ETIME h)"
    by (simp add: STATE_TIMEOUT_def)
  {
    assume "r = - ETIME h"
    with tr getc_Some_rtc_cfg [OF ret] have "call_trace s s' =
        ([Qm_rtc_set_config ((rtc_cfg s)\<lparr>alarm_en := True\<rparr>),
          Store_rx_state STATE_WAITING, Qm_uart_irq_read] @
         replicate m (Load_rx_state STATE_WAITING)) @
        [Load_rx_state r, Qm_uart_irq_read_terminate, Qm_rtc_set_config (rtc_cfg s')]"
      by (simp add: STATE_TIMEOUT_def)
    then show "\<exists>tr. call_trace s s' =
        tr @ [Load_rx_state r, Qm_uart_irq_read_terminate, Qm_rtc_set_config (rtc_cfg s')]" ..
  }
  {
    assume "r = STATE_UART_RX_DONE \<or> r = STATE_UART_ERROR h"
    with assms have "r \<noteq> - ETIME h"
      by (auto simp: hdr_ok_def enum_defs)
    with iff show "Qm_uart_irq_read_terminate \<notin> set (call_trace s s')" by simp
  }
qed

theorem getc_timeout_terminates_read_witness:
  "hdr_ok h0 \<and>
   callbacks (irq_poll env_timeout 0) = [] \<and> callbacks (irq_poll env_timeout 1) = [] \<and>
   callbacks (irq_poll env_timeout 2) = [] \<and> last (callbacks (irq_poll env_timeout 3)) = Rtc_callback \<and>
   (\<exists>s'. xmodem_io_getc h0 env_timeout 9 (xmodem_io_init h0) = Some (- 62, 9, s')) \<and>
   xmodem_io_getc h0 env_timeout 7 (xmodem_io_init h0) = Some (- 62, 7, s_timeout) \<and>
   Qm_uart_irq_read_terminate \<in> set (call_trace (xmodem_io_init h0) s_timeout) \<and>
   xmodem_io_getc h0 env_byte 7 (xmodem_io_init h0) = Some (1, 65, s_byte) \<and>
   Qm_uart_irq_read_terminate \<notin> set (call_trace (xmodem_io_init h0) s_byte)"
proof -
  note t = getc_timeout_terminates_read [OF h0_ok]
  have q: "\<forall>j<3. callbacks (irq_poll env_timeout j) = []"
    by (simp add: env_timeout_def callbacks_def)
  have f: "callbacks (irq_poll env_timeout 3) \<noteq> []"
    and l: "last (callbacks (irq_poll env_timeout 3)) = Rtc_callback"
    by (simp_all add: env_timeout_def callbacks_def)
  from t [where env = env_timeout and n = 3 and ch = 9 and s = "xmodem_io_init h0", THEN conjunct1] q f l
  have 1: "\<exists>s'. xmodem_io_getc h0 env_timeout 9 (xmodem_io_init h0) = Some (- 62, 9, s')"
    by (simp add: h0_def)
  from t [where env = env_timeout and ch = 7 and s = "xmodem_io_init h0" and r = "- 62" and ch' = 7
      and s' = s_timeout, THEN conjunct2] getc_env_timeout
  have 2: "Qm_uart_irq_read_terminate \<in> set (call_trace (xmodem_io_init h0) s_timeout)"
    by (simp add: h0_def)
  from t [where env = env_byte and ch = 7 and s = "xmodem_io_init h0" and r = 1 and ch' = 65
      and s' = s_byte, THEN conjunct2] getc_env_byte
  have 3: "Qm_uart_irq_read_terminate \<notin> set (call_trace (xmodem_io_init h0) s_byte)"
    by (simp add: STATE_UART_RX_DONE_def h0_def)
  have q': "callbacks (irq_poll env_timeout 0) = [] \<and> callbacks (irq_poll env_timeout 1) = [] \<and>
    callbacks (irq_poll env_timeout 2) = []"
    by (simp add: env_timeout_def callbacks_def)
  from h0_ok q' l 1 2 3 getc_env_timeout getc_env_byte show ?thesis by simp
qed

text \<open>
  C5. The first actions of a call, whether it returns or not, are: the alarm is enabled
  (\<open>qm_rtc_set_config\<close> with \<open>alarm_en\<close> set), the state cell is reset to
  \<open>STATE_WAITING\<close>, the read is started. A call that returns has then loaded the cell
  until the value was not \<open>STATE_WAITING\<close>, and loads it no more. What the cell held
  when the call began has no influence on the call.
\<close>

theorem getc_order:
  "trace (getc_start h env s) =
     trace s @ [Qm_rtc_set_config ((rtc_cfg s)\<lparr>alarm_en := True\<rparr>),
                Store_rx_state STATE_WAITING, Qm_uart_irq_read] \<and>
   xmodem_io_getc h env ch (s\<lparr>xmodem_io_rx_state := v\<rparr>) = xmodem_io_getc h env ch s \<and>
   (xmodem_io_getc h env ch s = Some (r, ch', s') \<longrightarrow>
      r \<noteq> STATE_WAITING \<and>
      (\<exists>n rest. call_trace s s' =
         [Qm_rtc_set_config ((rtc_cfg s)\<lparr>alarm_en := True\<rparr>),
          Store_rx_state STATE_WAITING, Qm_uart_irq_read] @
         replicate n (Load_rx_state STATE_WAITING) @ [Load_rx_state r] @ rest \<and>
         loads rest = []))"
proof (intro conjI impI)
  show "trace (getc_start h env s) =
     trace s @ [Qm_rtc_set_config ((rtc_cfg s)\<lparr>alarm_en := True\<rparr>),
                Store_rx_state STATE_WAITING, Qm_uart_irq_read]"
    by (rule getc_start_trace)
  show "xmodem_io_getc h env ch (s\<lparr>xmodem_io_rx_state := v\<rparr>) = xmodem_io_getc h env ch s"
    by (rule getc_stale)
next
  assume ret: "xmodem_io_getc h env ch s = Some (r, ch', s')"
  then show "r \<noteq> STATE_WAITING" by (rule getc_Some_result)
  let ?rest = "(if r = STATE_TIMEOUT h then [Qm_uart_irq_read_terminate]
            else if r = STATE_UART_RX_DONE then [Store_ch ch'] else []) @
           [Qm_rtc_set_config ((rtc_cfg s)\<lparr>alarm_en := False\<rparr>)]"
  from getc_Some_call_trace [OF ret] obtain n where "call_trace s s' =
           [Qm_rtc_set_config ((rtc_cfg s)\<lparr>alarm_en := True\<rparr>),
            Store_rx_state STATE_WAITING, Qm_uart_irq_read] @
           replicate n (Load_rx_state STATE_WAITING) @ [Load_rx_state r] @ ?rest" ..
  moreover have "loads ?rest = []" by simp
  ultimately show "\<exists>n rest. call_trace s s' =
         [Qm_rtc_set_config ((rtc_cfg s)\<lparr>alarm_en := True\<rparr>),
          Store_rx_state STATE_WAITING, Qm_uart_irq_read] @
         replicate n (Load_rx_state STATE_WAITING) @ [Load_rx_state r] @ rest \<and>
         loads rest = []"
    by blast
qed

theorem getc_order_witness:
  "xmodem_io_getc h0 env_byte 7 (xmodem_io_init h0) = Some (1, 65, s_byte) \<and>
   xmodem_io_getc h0 env_byte 7 ((xmodem_io_init h0)\<lparr>xmodem_io_rx_state := - 62\<rparr>) =
     Some (1, 65, s_byte) \<and>
   (\<exists>n rest. call_trace (xmodem_io_init h0) s_byte =
      [Qm_rtc_set_config ((rtc_cfg (xmodem_io_init h0))\<lparr>alarm_en := True\<rparr>),
       Store_rx_state STATE_WAITING, Qm_uart_irq_read] @
      replicate n (Load_rx_state STATE_WAITING) @ [Load_rx_state 1] @ rest \<and>
      loads rest = [])"
proof -
  note t = getc_order [where h = h0 and env = env_byte and ch = 7 and s = "xmodem_io_init h0"
      and r = 1 and ch' = 65 and s' = s_byte and v = "- 62"]
  from t getc_env_byte show ?thesis by simp
qed

text \<open>
  C6, as stated, fails: in the call with \<open>env_byte\<close> the structure with the alarm enabled is
  given to the RTC driver before the state cell is reset, so the reset does not come
  before the arming of the timeout.
\<close>

theorem getc_reset_before_arm_counterexample:
  "xmodem_io_getc h0 env_byte 7 (xmodem_io_init h0) = Some (1, 65, s_byte) \<and>
   call_trace (xmodem_io_init h0) s_byte =
     [Qm_rtc_set_config \<lparr> init_val = 0, alarm_en = True, alarm_val = 65536 \<rparr>,
      Store_rx_state STATE_WAITING, Qm_uart_irq_read,
      Load_rx_state 2, Load_rx_state 1, Store_ch 65,
      Qm_rtc_set_config \<lparr> init_val = 0, alarm_en = False, alarm_val = 65536 \<rparr>] \<and>
   \<not> occurs_before (Store_rx_state STATE_WAITING)
       (Qm_rtc_set_config \<lparr> init_val = 0, alarm_en = True, alarm_val = 65536 \<rparr>)
       (call_trace (xmodem_io_init h0) s_byte)"
  by code_simp

text \<open>
  C6, amended. In every call that returns, the state cell is reset to \<open>STATE_WAITING\<close>
  after the timeout is armed and before the read is started: the call's first three
  actions are the arming, the reset and the start of the read, and the call neither
  resets the cell nor starts a read again.
\<close>

theorem getc_reset_after_arm:
  assumes "xmodem_io_getc h env ch s = Some (r, ch', s')"
  shows "occurs_before (Qm_rtc_set_config ((rtc_cfg s)\<lparr>alarm_en := True\<rparr>))
           (Store_rx_state STATE_WAITING) (call_trace s s') \<and>
         occurs_before (Store_rx_state STATE_WAITING) Qm_uart_irq_read (call_trace s s') \<and>
         (\<exists>rest. call_trace s s' =
            [Qm_rtc_set_config ((rtc_cfg s)\<lparr>alarm_en := True\<rparr>),
             Store_rx_state STATE_WAITING, Qm_uart_irq_read] @ rest \<and>
            Store_rx_state STATE_WAITING \<notin> set rest \<and> Qm_uart_irq_read \<notin> set rest)"
proof -
  let ?rest = "\<lambda>n. replicate n (Load_rx_state STATE_WAITING) @ [Load_rx_state r] @
           (if r = STATE_TIMEOUT h then [Qm_uart_irq_read_terminate]
            else if r = STATE_UART_RX_DONE then [Store_ch ch'] else []) @
           [Qm_rtc_set_config ((rtc_cfg s)\<lparr>alarm_en := False\<rparr>)]"
  from getc_Some_call_trace [OF assms] obtain n where tr: "call_trace s s' =
           [Qm_rtc_set_config ((rtc_cfg s)\<lparr>alarm_en := True\<rparr>),
            Store_rx_state STATE_WAITING, Qm_uart_irq_read] @ ?rest n" ..
  have rest: "Store_rx_state STATE_WAITING \<notin> set (?rest n)" "Qm_uart_irq_read \<notin> set (?rest n)"
    by simp_all
  from tr have "occurs_before (Qm_rtc_set_config ((rtc_cfg s)\<lparr>alarm_en := True\<rparr>))
           (Store_rx_state STATE_WAITING) (call_trace s s')"
    by (simp add: occurs_before_def)
  moreover from tr have "occurs_before (Store_rx_state STATE_WAITING) Qm_uart_irq_read (call_trace s s')"
    by (simp add: occurs_before_def)
  moreover from tr rest have "\<exists>rest. call_trace s s' =
            [Qm_rtc_set_config ((rtc_cfg s)\<lparr>alarm_en := True\<rparr>),
             Store_rx_state STATE_WAITING, Qm_uart_irq_read] @ rest \<and>
            Store_rx_state STATE_WAITING \<notin> set rest \<and> Qm_uart_irq_read \<notin> set rest"
    by blast
  ultimately show ?thesis by blast
qed

theorem getc_reset_after_arm_witness:
  "xmodem_io_getc h0 env_byte 7 (xmodem_io_init h0) = Some (1, 65, s_byte) \<and>
   occurs_before (Qm_rtc_set_config ((rtc_cfg (xmodem_io_init h0))\<lparr>alarm_en := True\<rparr>))
     (Store_rx_state STATE_WAITING) (call_trace (xmodem_io_init h0) s_byte) \<and>
   occurs_before (Store_rx_state STATE_WAITING) Qm_uart_irq_read
     (call_trace (xmodem_io_init h0) s_byte)"
  using getc_reset_after_arm [OF getc_env_byte] getc_env_byte by simp

text \<open>
  C7. The static structure \<open>rtc_cfg\<close> starts disabled, with an alarm value of
  \<open>QM_RTC_ALARM_SECOND\<close> times 2. A call that returns gives the structure to the RTC
  driver exactly twice: as its first action with the alarm enabled, and as its last
  action with the alarm disabled, whatever the status; the alarm value is the one the
  structure had, so two seconds from the initial state on, and the structure is left
  disabled.
\<close>

theorem getc_alarm_toggle:
  "rtc_cfg (xmodem_io_init h) =
     \<lparr> init_val = 0, alarm_en = False, alarm_val = QM_RTC_ALARM_SECOND h * 2 \<rparr> \<and>
   (xmodem_io_getc h env ch s = Some (r, ch', s') \<and>
    alarm_val (rtc_cfg s) = QM_RTC_ALARM_SECOND h * XMODEM_UART_TIMEOUT_S \<longrightarrow>
      rtc_configs (call_trace s s') =
        [\<lparr> init_val = init_val (rtc_cfg s), alarm_en = True, alarm_val = QM_RTC_ALARM_SECOND h * 2 \<rparr>,
         \<lparr> init_val = init_val (rtc_cfg s), alarm_en = False, alarm_val = QM_RTC_ALARM_SECOND h * 2 \<rparr>] \<and>
      hd (call_trace s s') =
        Qm_rtc_set_config
          \<lparr> init_val = init_val (rtc_cfg s), alarm_en = True, alarm_val = QM_RTC_ALARM_SECOND h * 2 \<rparr> \<and>
      last (call_trace s s') =
        Qm_rtc_set_config
          \<lparr> init_val = init_val (rtc_cfg s), alarm_en = False, alarm_val = QM_RTC_ALARM_SECOND h * 2 \<rparr> \<and>
      rtc_cfg s' =
        \<lparr> init_val = init_val (rtc_cfg s), alarm_en = False, alarm_val = QM_RTC_ALARM_SECOND h * 2 \<rparr>)"
proof (intro conjI impI)
  show "rtc_cfg (xmodem_io_init h) =
     \<lparr> init_val = 0, alarm_en = False, alarm_val = QM_RTC_ALARM_SECOND h * 2 \<rparr>"
    by (simp add: xmodem_io_init_def XMODEM_UART_TIMEOUT_S_def)
next
  assume a: "xmodem_io_getc h env ch s = Some (r, ch', s') \<and>
    alarm_val (rtc_cfg s) = QM_RTC_ALARM_SECOND h * XMODEM_UART_TIMEOUT_S"
  then have ret: "xmodem_io_getc h env ch s = Some (r, ch', s')"
    and val: "alarm_val (rtc_cfg s) = QM_RTC_ALARM_SECOND h * 2"
    by (simp_all add: XMODEM_UART_TIMEOUT_S_def)
  let ?on = "\<lparr> init_val = init_val (rtc_cfg s), alarm_en = True, alarm_val = QM_RTC_ALARM_SECOND h * 2 \<rparr>"
  let ?off = "\<lparr> init_val = init_val (rtc_cfg s), alarm_en = False, alarm_val = QM_RTC_ALARM_SECOND h * 2 \<rparr>"
  from val have on: "(rtc_cfg s)\<lparr>alarm_en := True\<rparr> = ?on"
    and off: "(rtc_cfg s)\<lparr>alarm_en := False\<rparr> = ?off"
    by (cases "rtc_cfg s", simp)+
  from getc_Some_call_trace [OF ret] obtain n where tr: "call_trace s s' =
           [Qm_rtc_set_config ?on, Store_rx_state STATE_WAITING, Qm_uart_irq_read] @
           replicate n (Load_rx_state STATE_WAITING) @ [Load_rx_state r] @
           (if r = STATE_TIMEOUT h then [Qm_uart_irq_read_terminate]
            else if r = STATE_UART_RX_DONE then [Store_ch ch'] else []) @
           [Qm_rtc_set_config ?off]"
    unfolding on off ..
  from tr show "rtc_configs (call_trace s s') = [?on, ?off]"
    by (simp add: rtc_configs_append rtc_configs_replicate_Load)
  from tr show "hd (call_trace s s') = Qm_rtc_set_config ?on"
    by simp
  from tr show "last (call_trace s s') = Qm_rtc_set_config ?off"
    by simp
  from getc_Some_rtc_cfg [OF ret] off show "rtc_cfg s' = ?off"
    by simp
qed

theorem getc_alarm_toggle_witness:
  "xmodem_io_getc h0 env_timeout 7 (xmodem_io_init h0) = Some (- 62, 7, s_timeout) \<and>
   alarm_val (rtc_cfg (xmodem_io_init h0)) = QM_RTC_ALARM_SECOND h0 * XMODEM_UART_TIMEOUT_S \<and>
   rtc_configs (call_trace (xmodem_io_init h0) s_timeout) =
     [\<lparr> init_val = 0, alarm_en = True, alarm_val = 32768 * 2 \<rparr>,
      \<lparr> init_val = 0, alarm_en = False, alarm_val = 32768 * 2 \<rparr>] \<and>
   rtc_cfg s_timeout = \<lparr> init_val = 0, alarm_en = False, alarm_val = 32768 * 2 \<rparr>"
proof -
  have v: "alarm_val (rtc_cfg (xmodem_io_init h0)) = QM_RTC_ALARM_SECOND h0 * XMODEM_UART_TIMEOUT_S"
    by (simp add: xmodem_io_init_def)
  from getc_alarm_toggle [where h = h0 and env = env_timeout and ch = 7 and s = "xmodem_io_init h0"
      and r = "- 62" and ch' = 7 and s' = s_timeout, THEN conjunct2] getc_env_timeout v
  have "rtc_configs (call_trace (xmodem_io_init h0) s_timeout) =
     [\<lparr> init_val = init_val (rtc_cfg (xmodem_io_init h0)), alarm_en = True,
        alarm_val = QM_RTC_ALARM_SECOND h0 * 2 \<rparr>,
      \<lparr> init_val = init_val (rtc_cfg (xmodem_io_init h0)), alarm_en = False,
        alarm_val = QM_RTC_ALARM_SECOND h0 * 2 \<rparr>]"
    and "rtc_cfg s_timeout =
      \<lparr> init_val = init_val (rtc_cfg (xmodem_io_init h0)), alarm_en = False,
        alarm_val = QM_RTC_ALARM_SECOND h0 * 2 \<rparr>"
    by simp_all
  with getc_env_timeout v show ?thesis
    by (simp add: xmodem_io_init_def h0_def)
qed

text \<open>
  C8. A call that returns has loaded \<open>STATE_WAITING\<close> from the state cell in every
  iteration but the last, and returns the value of the last load: it is not
  \<open>STATE_WAITING\<close>, it is one of \<open>STATE_UART_RX_DONE\<close>, \<open>STATE_UART_ERROR\<close> and
  \<open>STATE_TIMEOUT\<close>, and so the \<open>switch\<close> is never entered with \<open>STATE_WAITING\<close>. The
  call does return as soon as a callback has preempted the loop.
\<close>

theorem getc_never_waiting:
  "(xmodem_io_getc h env ch s = Some (r, ch', s') \<longrightarrow>
      r \<noteq> STATE_WAITING \<and>
      r \<in> {STATE_UART_RX_DONE, STATE_UART_ERROR h, STATE_TIMEOUT h} \<and>
      (\<exists>n. loads (call_trace s s') = replicate n STATE_WAITING @ [r])) \<and>
   (hdr_ok h \<and> callbacks (irq_poll env k) \<noteq> [] \<longrightarrow>
      (\<exists>r ch' s'. xmodem_io_getc h env ch s = Some (r, ch', s') \<and> r \<noteq> STATE_WAITING))"
proof (intro conjI impI)
  assume ret: "xmodem_io_getc h env ch s = Some (r, ch', s')"
  then show "r \<noteq> STATE_WAITING"
    and "r \<in> {STATE_UART_RX_DONE, STATE_UART_ERROR h, STATE_TIMEOUT h}"
    by (rule getc_Some_result)+
  from getc_Some_call_trace [OF ret] obtain n where "call_trace s s' =
           [Qm_rtc_set_config ((rtc_cfg s)\<lparr>alarm_en := True\<rparr>),
            Store_rx_state STATE_WAITING, Qm_uart_irq_read] @
           replicate n (Load_rx_state STATE_WAITING) @ [Load_rx_state r] @
           (if r = STATE_TIMEOUT h then [Qm_uart_irq_read_terminate]
            else if r = STATE_UART_RX_DONE then [Store_ch ch'] else []) @
           [Qm_rtc_set_config ((rtc_cfg s)\<lparr>alarm_en := False\<rparr>)]" ..
  then have "loads (call_trace s s') = replicate n STATE_WAITING @ [r]"
    by (simp add: loads_append loads_replicate_Load)
  then show "\<exists>n. loads (call_trace s s') = replicate n STATE_WAITING @ [r]" ..
next
  assume a: "hdr_ok h \<and> callbacks (irq_poll env k) \<noteq> []"
  define n where "n = (LEAST j. callbacks (irq_poll env j) \<noteq> [])"
  from a have fire: "callbacks (irq_poll env n) \<noteq> []"
    unfolding n_def by (metis (mono_tags, lifting) LeastI)
  have quiet: "\<forall>j<n. callbacks (irq_poll env j) = []"
    unfolding n_def using not_less_Least by blast
  from a have ok: "hdr_ok h" by simp
  from getc_returns [OF ok quiet fire, of ch s] obtain r ch' s' where
    ret: "xmodem_io_getc h env ch s = Some (r, ch', s')"
    by blast
  from ret have "r \<noteq> STATE_WAITING" by (rule getc_Some_result)
  with ret show "\<exists>r ch' s'. xmodem_io_getc h env ch s = Some (r, ch', s') \<and> r \<noteq> STATE_WAITING"
    by blast
qed

theorem getc_never_waiting_witness:
  "xmodem_io_getc h0 env_fault 7 (xmodem_io_init h0) = Some (- 5, 7, s_fault) \<and>
   loads (call_trace (xmodem_io_init h0) s_fault) = [2, 2, - 5] \<and>
   hdr_ok h0 \<and> callbacks (irq_poll env_timeout 3) \<noteq> [] \<and>
   (\<exists>r ch' s'. xmodem_io_getc h0 env_timeout 7 (xmodem_io_init h0) = Some (r, ch', s') \<and>
      r \<noteq> STATE_WAITING)"
proof -
  have f: "callbacks (irq_poll env_timeout 3) \<noteq> []"
    by (simp add: env_timeout_def callbacks_def)
  from getc_never_waiting [where h = h0 and env = env_fault and ch = 7 and s = "xmodem_io_init h0"
      and r = "- 5" and ch' = 7 and s' = s_fault, THEN conjunct1] getc_env_fault
  obtain n where "loads (call_trace (xmodem_io_init h0) s_fault) = replicate n STATE_WAITING @ [- 5]"
    by blast
  moreover have "loads (call_trace (xmodem_io_init h0) s_fault) = [2, 2, - 5]"
    by (simp add: call_trace_init s_fault_def)
  moreover from getc_never_waiting [where h = h0 and env = env_timeout and k = 3 and ch = 7
      and s = "xmodem_io_init h0", THEN conjunct2] h0_ok f
  have "\<exists>r ch' s'. xmodem_io_getc h0 env_timeout 7 (xmodem_io_init h0) = Some (r, ch', s') \<and>
      r \<noteq> STATE_WAITING"
    by simp
  ultimately show ?thesis using getc_env_fault h0_ok f by simp
qed

text \<open>
  C10, as stated, fails for the calls that do not succeed: the call with \<open>env_fault\<close>
  returns \<open>-5\<close>, and a caller that tests the status for equality with zero takes the
  call for a failure, which it is: the test and the outcome agree.
\<close>

theorem getc_zero_test_counterexample:
  "xmodem_io_getc h0 env_fault 7 (xmodem_io_init h0) = Some (- 5, 7, s_fault) \<and>
   ((- 5 :: int) = 0) = ((- 5 :: int) = STATE_UART_RX_DONE)"
  by code_simp

text \<open>
  C10, amended. The status a call returns is the value loaded last from the state cell,
  an enumerator of \<open>rx_state\<close>: 1 (\<open>STATE_UART_RX_DONE\<close>) exactly when the byte was
  stored through \<open>ch\<close>, \<open>-ETIME\<close> exactly when the read was terminated, and \<open>-EIO\<close>
  otherwise. It is never 0, so a test of the status for equality with zero disagrees
  with the outcome exactly for the calls that succeed.
\<close>

theorem getc_status_values:
  assumes "hdr_ok h" and "xmodem_io_getc h env ch s = Some (r, ch', s')"
  shows "r = last (loads (call_trace s s')) \<and>
         r \<in> {1, - EIO h, - ETIME h} \<and> r \<noteq> 0 \<and>
         (r = 1) = (ch_stores (call_trace s s') \<noteq> []) \<and>
         (r = - ETIME h) = (Qm_uart_irq_read_terminate \<in> set (call_trace s s')) \<and>
         ((r = 0) = (r = STATE_UART_RX_DONE)) = (r \<noteq> STATE_UART_RX_DONE) \<and>
         STATE_UART_RX_DONE = 1 \<and> STATE_UART_ERROR h = - EIO h \<and> STATE_TIMEOUT h = - ETIME h"
proof -
  from getc_Some_call_trace [OF assms(2)] obtain n where tr: "call_trace s s' =
           [Qm_rtc_set_config ((rtc_cfg s)\<lparr>alarm_en := True\<rparr>),
            Store_rx_state STATE_WAITING, Qm_uart_irq_read] @
           replicate n (Load_rx_state STATE_WAITING) @ [Load_rx_state r] @
           (if r = STATE_TIMEOUT h then [Qm_uart_irq_read_terminate]
            else if r = STATE_UART_RX_DONE then [Store_ch ch'] else []) @
           [Qm_rtc_set_config ((rtc_cfg s)\<lparr>alarm_en := False\<rparr>)]" ..
  from tr have "loads (call_trace s s') = replicate n STATE_WAITING @ [r]"
    by (simp add: loads_append loads_replicate_Load)
  then have 1: "r = last (loads (call_trace s s'))" by simp
  from getc_Some_result(2) [OF assms(2)] have 2: "r \<in> {1, - EIO h, - ETIME h}"
    by (auto simp: enum_defs)
  with assms(1) have 3: "r \<noteq> 0"
    by (auto simp: hdr_ok_def)
  from assms(1) have ne: "STATE_UART_RX_DONE \<noteq> STATE_TIMEOUT h"
    by (simp add: hdr_ok_def enum_defs)
  from tr ne have 4: "(r = 1) = (ch_stores (call_trace s s') \<noteq> [])"
    by (simp add: ch_stores_append ch_stores_replicate_Load STATE_UART_RX_DONE_def)
  from tr have 5: "(r = - ETIME h) = (Qm_uart_irq_read_terminate \<in> set (call_trace s s'))"
    by (auto simp: STATE_TIMEOUT_def)
  from 3 have 6: "((r = 0) = (r = STATE_UART_RX_DONE)) = (r \<noteq> STATE_UART_RX_DONE)"
    by simp
  from 1 2 3 4 5 6 show ?thesis by (simp add: enum_defs)
qed

theorem getc_status_values_witness:
  "hdr_ok h0 \<and>
   xmodem_io_getc h0 env_byte 7 (xmodem_io_init h0) = Some (1, 65, s_byte) \<and>
   (1::int) \<noteq> 0 \<and> ch_stores (call_trace (xmodem_io_init h0) s_byte) \<noteq> []"
  using getc_status_values [OF h0_ok getc_env_byte] h0_ok getc_env_byte by simp

end
